theory Spec2Isabelle
  imports Main
begin

section \<open>The agentic chunker (src/Advanced/agentic_chunker.py)\<close>

text \<open>
  A shallow embedding of the class \<open>AgenticChunker\<close>.  The object is a record that
  every method takes and returns; an exception is the left summand of the result, and the
  object is returned with it, because what a method has already written stays written when
  it raises.  The two things the class reads from outside are parameters: the language
  model behind \<open>self.llm\<close> and \<open>uuid.uuid4\<close>.  Both may answer differently each
  time they are asked, so both take the number of earlier calls as an argument.

  Strings are lists of characters with the code points 0 to 255.  \<open>str.strip\<close>
  removes the white space of \<open>str.isspace\<close> on these code points.  \<open>str.upper\<close>
  is modelled on the letters \<open>a\<close> to \<open>z\<close>; the class uses it only to compare
  the answer with four phrases of ASCII letters and spaces.  What the class prints is not
  modelled; \<open>print_logging\<close> is kept as a field only.
\<close>

subsection \<open>Strings\<close>

definition py_upper_char :: "char \<Rightarrow> char" where
  "py_upper_char c =
     (if 97 \<le> (of_char c :: nat) \<and> (of_char c :: nat) \<le> 122
      then char_of ((of_char c :: nat) - 32) else c)"

definition py_lower_char :: "char \<Rightarrow> char" where
  "py_lower_char c =
     (if 65 \<le> (of_char c :: nat) \<and> (of_char c :: nat) \<le> 90
      then char_of ((of_char c :: nat) + 32) else c)"

definition py_upper :: "string \<Rightarrow> string" where
  "py_upper s = map py_upper_char s"

definition py_lower :: "string \<Rightarrow> string" where
  "py_lower s = map py_lower_char s"

text \<open>
  \<open>str.isspace\<close> on the code points 0 to 255: tab to carriage return (9 to 13), the
  four separators and the space (28 to 32), next line (133) and the no-break space (160).
\<close>

definition py_isspace :: "char \<Rightarrow> bool" where
  "py_isspace c =
     ((9 \<le> (of_char c :: nat) \<and> (of_char c :: nat) \<le> 13) \<or>
      (28 \<le> (of_char c :: nat) \<and> (of_char c :: nat) \<le> 32) \<or>
      (of_char c :: nat) = 133 \<or> (of_char c :: nat) = 160)"

text \<open>\<open>s.strip()\<close>: the white space at both ends is removed.\<close>

definition py_strip :: "string \<Rightarrow> string" where
  "py_strip s = rev (dropWhile py_isspace (rev (dropWhile py_isspace s)))"

text \<open>\<open>sep.join(xs)\<close>.\<close>

fun py_join :: "string \<Rightarrow> string list \<Rightarrow> string" where
  "py_join sep [] = []"
| "py_join sep [x] = x"
| "py_join sep (x # y # ys) = x @ sep @ py_join sep (y # ys)"

text \<open>\<open>sub in s\<close> on strings: \<open>sub\<close> starts at some position of \<open>s\<close>.\<close>

fun starts_with :: "string \<Rightarrow> string \<Rightarrow> bool" where
  "starts_with s [] = True"
| "starts_with [] (c # sub) = False"
| "starts_with (d # s) (c # sub) = (d = c \<and> starts_with s sub)"

fun py_in_str :: "string \<Rightarrow> string \<Rightarrow> bool" where
  "py_in_str sub [] = (sub = [])"
| "py_in_str sub (d # s) = (starts_with (d # s) sub \<or> py_in_str sub s)"

definition newline :: string where
  "newline = [CHR 0x0A]"

subsection \<open>Dictionaries\<close>

text \<open>
  A Python \<open>dict\<close> keeps its keys in insertion order, and both
  \<open>get_chunk_outline\<close> and \<open>get_chunks\<close> read that order, so the store is an
  association list.  \<open>d[k] = v\<close> replaces the value of a key that is present, where it
  stands, and puts a new key at the end.
\<close>

fun dict_get :: "('k \<times> 'v) list \<Rightarrow> 'k \<Rightarrow> 'v option" where
  "dict_get [] k = None"
| "dict_get ((k', v') # d) k = (if k' = k then Some v' else dict_get d k)"

fun dict_set :: "('k \<times> 'v) list \<Rightarrow> 'k \<Rightarrow> 'v \<Rightarrow> ('k \<times> 'v) list" where
  "dict_set [] k v = [(k, v)]"
| "dict_set ((k', v') # d) k v =
     (if k' = k then (k', v) # d else (k', v') # dict_set d k v)"

definition dict_keys :: "('k \<times> 'v) list \<Rightarrow> 'k list" where
  "dict_keys d = map fst d"

definition dict_values :: "('k \<times> 'v) list \<Rightarrow> 'v list" where
  "dict_values d = map snd d"

definition dict_contains :: "('k \<times> 'v) list \<Rightarrow> 'k \<Rightarrow> bool" where
  "dict_contains d k = (dict_get d k \<noteq> None)"

subsection \<open>The data\<close>

record chunk =
  chunk_id :: string
  propositions :: "string list"
  title :: string
  summary :: string
  chunk_index :: nat

datatype error = OracleError | KeyError

text \<open>
  One constructor for each prompt the class sends, with the values that fill the
  template's variables, in the order the source gives them.
\<close>

datatype query =
    UpdateSummaryPrompt string string
  | UpdateTitlePrompt string string string
  | NewSummaryPrompt string
  | NewTitlePrompt string
  | FindChunkPrompt string string

text \<open>
  \<open>llm n q\<close> is what the model answers to \<open>q\<close> when \<open>n\<close> calls were made
  before: the text of the message (\<open>.content\<close>), or the exception that
  \<open>invoke\<close> raises.  \<open>uuid4 n\<close> is \<open>str(uuid.uuid4())\<close> at the \<open>n\<close>-th
  call.
\<close>

record env =
  llm :: "nat \<Rightarrow> query \<Rightarrow> error + string"
  uuid4 :: "nat \<Rightarrow> string"

text \<open>
  The fields of \<open>__init__\<close>, and two histories that the object does not hold but its
  surroundings do: the calls made to the model so far, each with its answer, and the
  number of calls made to \<open>uuid.uuid4\<close>.
\<close>

record chunker =
  chunks :: "(string \<times> chunk) list"
  id_truncate_limit :: nat
  generate_new_metadata_ind :: bool
  print_logging :: bool
  llm_log :: "(query \<times> (error + string)) list"
  uuid_calls :: nat

definition init :: chunker where
  "init = \<lparr> chunks = [], id_truncate_limit = 5, generate_new_metadata_ind = True,
            print_logging = True, llm_log = [], uuid_calls = 0 \<rparr>"

subsection \<open>Calls to the model\<close>

text \<open>\<open>runnable.invoke({...}).content.strip()\<close>, shared by the five prompts.\<close>

definition invoke :: "env \<Rightarrow> chunker \<Rightarrow> query \<Rightarrow> (error + string) \<times> chunker" where
  "invoke e s q =
     (let r = llm e (length (llm_log s)) q;
          s' = s\<lparr>llm_log := llm_log s @ [(q, r)]\<rparr>
      in case r of
           Inl err \<Rightarrow> (Inl err, s')
         | Inr content \<Rightarrow> (Inr (py_strip content), s'))"

definition update_chunk_summary :: "env \<Rightarrow> chunker \<Rightarrow> chunk \<Rightarrow> (error + string) \<times> chunker" where
  "update_chunk_summary e s c =
     invoke e s (UpdateSummaryPrompt (py_join newline (propositions c)) (summary c))"

definition update_chunk_title :: "env \<Rightarrow> chunker \<Rightarrow> chunk \<Rightarrow> (error + string) \<times> chunker" where
  "update_chunk_title e s c =
     invoke e s (UpdateTitlePrompt (py_join newline (propositions c)) (summary c) (title c))"

definition get_new_chunk_summary :: "env \<Rightarrow> chunker \<Rightarrow> string \<Rightarrow> (error + string) \<times> chunker" where
  "get_new_chunk_summary e s proposition = invoke e s (NewSummaryPrompt proposition)"

definition get_new_chunk_title :: "env \<Rightarrow> chunker \<Rightarrow> string \<Rightarrow> (error + string) \<times> chunker" where
  "get_new_chunk_title e s summ = invoke e s (NewTitlePrompt summ)"

subsection \<open>The methods\<close>

text \<open>
  \<open>add_proposition_to_chunk\<close>: the proposition is appended first; with the flag on,
  the summary is asked for and stored, then the title is asked for and stored.  The chunk
  passed to each prompt is the chunk as it stands at that moment.
\<close>

definition add_proposition_to_chunk ::
  "env \<Rightarrow> chunker \<Rightarrow> string \<Rightarrow> string \<Rightarrow> (error + unit) \<times> chunker" where
  "add_proposition_to_chunk e s cid proposition =
     (case dict_get (chunks s) cid of
        None \<Rightarrow> (Inl KeyError, s)
      | Some c \<Rightarrow>
          let c1 = c\<lparr>propositions := propositions c @ [proposition]\<rparr>;
              s1 = s\<lparr>chunks := dict_set (chunks s) cid c1\<rparr>
          in if generate_new_metadata_ind s1 then
               (case update_chunk_summary e s1 c1 of
                  (Inl err, s2) \<Rightarrow> (Inl err, s2)
                | (Inr new_summary, s2) \<Rightarrow>
                    let c2 = c1\<lparr>summary := new_summary\<rparr>;
                        s3 = s2\<lparr>chunks := dict_set (chunks s2) cid c2\<rparr>
                    in (case update_chunk_title e s3 c2 of
                          (Inl err, s4) \<Rightarrow> (Inl err, s4)
                        | (Inr new_title, s4) \<Rightarrow>
                            (Inr (), s4\<lparr>chunks :=
                               dict_set (chunks s4) cid (c2\<lparr>title := new_title\<rparr>)\<rparr>)))
             else (Inr (), s1))"

text \<open>
  \<open>_create_new_chunk\<close>: the id is the start of a new uuid; summary and title are
  asked for; then the record is stored under the id, with the number of chunks in the
  store at that moment as its index.
\<close>

definition create_new_chunk :: "env \<Rightarrow> chunker \<Rightarrow> string \<Rightarrow> (error + unit) \<times> chunker" where
  "create_new_chunk e s proposition =
     (let new_chunk_id = take (id_truncate_limit s) (uuid4 e (uuid_calls s));
          s0 = s\<lparr>uuid_calls := Suc (uuid_calls s)\<rparr>
      in case get_new_chunk_summary e s0 proposition of
           (Inl err, s1) \<Rightarrow> (Inl err, s1)
         | (Inr new_chunk_summary, s1) \<Rightarrow>
             (case get_new_chunk_title e s1 new_chunk_summary of
                (Inl err, s2) \<Rightarrow> (Inl err, s2)
              | (Inr new_chunk_title, s2) \<Rightarrow>
                  (Inr (), s2\<lparr>chunks := dict_set (chunks s2) new_chunk_id
                     \<lparr> chunk_id = new_chunk_id,
                       propositions = [proposition],
                       title = new_chunk_title,
                       summary = new_chunk_summary,
                       chunk_index = length (chunks s2) \<rparr>\<rparr>)))"

definition chunk_outline_block :: "chunk \<Rightarrow> string" where
  "chunk_outline_block c =
     ''Chunk ID: '' @ chunk_id c @ newline @
     ''Chunk Name: '' @ title c @ newline @
     ''Chunk Summary: '' @ summary c @ newline @ newline"

fun outline_loop :: "string \<Rightarrow> chunk list \<Rightarrow> string" where
  "outline_loop outline [] = outline"
| "outline_loop outline (c # cs) = outline_loop (outline @ chunk_outline_block c) cs"

definition get_chunk_outline :: "chunker \<Rightarrow> string" where
  "get_chunk_outline s = outline_loop [] (dict_values (chunks s))"

text \<open>The loop at the end of \<open>_find_relevant_chunk\<close>, over the keys in store order.\<close>

fun scan_chunk_ids :: "string list \<Rightarrow> string \<Rightarrow> string option" where
  "scan_chunk_ids [] result = None"
| "scan_chunk_ids (cid # cids) result =
     (if py_in_str cid result then Some cid else scan_chunk_ids cids result)"

text \<open>What \<open>_find_relevant_chunk\<close> does with the stripped answer (lines 139 to 156).\<close>

definition match_result :: "chunker \<Rightarrow> string \<Rightarrow> string option" where
  "match_result s result =
     (if py_upper result \<in> set [''NONE'', ''NO CHUNKS'', ''NO MATCH'', ''NO''] then None
      else if dict_contains (chunks s) result then Some result
      else if dict_contains (chunks s) (take (id_truncate_limit s) result)
        then Some (take (id_truncate_limit s) result)
      else scan_chunk_ids (dict_keys (chunks s)) result)"

definition find_relevant_chunk ::
  "env \<Rightarrow> chunker \<Rightarrow> string \<Rightarrow> (error + string option) \<times> chunker" where
  "find_relevant_chunk e s proposition =
     (let current_chunk_outline = get_chunk_outline s
      in case invoke e s (FindChunkPrompt proposition current_chunk_outline) of
           (Inl err, s1) \<Rightarrow> (Inl err, s1)
         | (Inr result, s1) \<Rightarrow> (Inr (match_result s1 result), s1))"

text \<open>
  \<open>add_proposition\<close>.  \<open>if chunk_id:\<close> is false for \<open>None\<close> and for the empty
  string.
\<close>

definition add_proposition :: "env \<Rightarrow> chunker \<Rightarrow> string \<Rightarrow> (error + unit) \<times> chunker" where
  "add_proposition e s proposition =
     (if length (chunks s) = 0 then create_new_chunk e s proposition
      else case find_relevant_chunk e s proposition of
             (Inl err, s1) \<Rightarrow> (Inl err, s1)
           | (Inr found, s1) \<Rightarrow>
               (case found of
                  None \<Rightarrow> create_new_chunk e s1 proposition
                | Some cid \<Rightarrow>
                    if cid \<noteq> [] then add_proposition_to_chunk e s1 cid proposition
                    else create_new_chunk e s1 proposition))"

text \<open>\<open>add_propositions\<close>: the loop ends at the first exception.\<close>

fun add_propositions :: "env \<Rightarrow> chunker \<Rightarrow> string list \<Rightarrow> (error + unit) \<times> chunker" where
  "add_propositions e s [] = (Inr (), s)"
| "add_propositions e s (p # ps) =
     (case add_proposition e s p of
        (Inl err, s1) \<Rightarrow> (Inl err, s1)
      | (Inr u, s1) \<Rightarrow> add_propositions e s1 ps)"

text \<open>
  \<open>get_chunks\<close>.  The argument is any Python value; the result is the dictionary, a
  list of strings, or \<open>None\<close> when the end of the body is reached.
\<close>

datatype py_value = PyStr string | PyInt int | PyBool bool | PyNone

datatype chunks_view = ChunkDict "(string \<times> chunk) list" | ListOfStrings "string list"

fun join_loop :: "string list \<Rightarrow> chunk list \<Rightarrow> string list" where
  "join_loop acc [] = acc"
| "join_loop acc (c # cs) = join_loop (acc @ [py_join '' '' (propositions c)]) cs"

definition get_chunks :: "chunker \<Rightarrow> py_value \<Rightarrow> chunks_view option \<times> chunker" where
  "get_chunks s get_type =
     (if get_type = PyStr ''dict'' then (Some (ChunkDict (chunks s)), s)
      else if get_type = PyStr ''list_of_strings''
        then (Some (ListOfStrings (join_loop [] (dict_values (chunks s)))), s)
      else (None, s))"

subsection \<open>Sequences of calls\<close>

text \<open>
  A sequence of calls on one object.  A call that raises leaves the object as it is at
  that moment, and the next call goes on from there.
\<close>

datatype call = AddProposition string | AddPropositions "string list"

fun run :: "env \<Rightarrow> chunker \<Rightarrow> call list \<Rightarrow> chunker" where
  "run e s [] = s"
| "run e s (AddProposition p # calls) = run e (snd (add_proposition e s p)) calls"
| "run e s (AddPropositions ps # calls) = run e (snd (add_propositions e s ps)) calls"

section \<open>Notions of the specification\<close>

text \<open>
  The specification speaks of comparing without regard to case, of the phrases that mean
  "no match", of an id that occurs inside the answer, and of the propositions of a chunk
  joined by single spaces.  These are written here from its words, to be compared with
  what the code computes.
\<close>

definition ci_equal :: "string \<Rightarrow> string \<Rightarrow> bool" where
  "ci_equal a b = (py_lower a = py_lower b)"

definition no_match_phrases :: "string list" where
  "no_match_phrases = [''none'', ''no match'', ''no chunks'', ''no'']"

definition no_match_sentinel :: "string \<Rightarrow> bool" where
  "no_match_sentinel result = (\<exists>ph \<in> set no_match_phrases. ci_equal result ph)"

definition contiguous_substring :: "string \<Rightarrow> string \<Rightarrow> bool" where
  "contiguous_substring sub s = (\<exists>before after. s = before @ sub @ after)"

definition space_joined :: "string list \<Rightarrow> string" where
  "space_joined ps =
     (case ps of [] \<Rightarrow> [] | p # rest \<Rightarrow> p @ concat (map (\<lambda>q. '' '' @ q) rest))"

definition flattened_view :: "chunker \<Rightarrow> string list" where
  "flattened_view s = map (\<lambda>(k, c). space_joined (propositions c)) (chunks s)"

text \<open>The placement prompts among the calls made to the model.\<close>

definition placement_queries ::
  "(query \<times> (error + string)) list \<Rightarrow> (query \<times> (error + string)) list" where
  "placement_queries log =
     filter (\<lambda>(q, r). case q of FindChunkPrompt p outline \<Rightarrow> True | _ \<Rightarrow> False) log"

text \<open>
  A creation is completed when the model has answered its title prompt: nothing after
  that prompt can raise, and the chunk is stored.
\<close>

definition completed_creation :: "query \<times> (error + string) \<Rightarrow> bool" where
  "completed_creation qr =
     (case qr of
        (NewTitlePrompt sm, Inr b) \<Rightarrow> True
      | _ \<Rightarrow> False)"

definition creations :: "chunker \<Rightarrow> nat" where
  "creations s = length (filter completed_creation (llm_log s))"

text \<open>The ids drawn so far: the start of each uuid, in the order of the calls.\<close>

definition drawn_ids :: "env \<Rightarrow> chunker \<Rightarrow> string list" where
  "drawn_ids e s = map (\<lambda>i. take (id_truncate_limit s) (uuid4 e i)) [0..<uuid_calls s]"

section \<open>Notions of the proofs\<close>

text \<open>The chunk that \<open>_create_new_chunk\<close> stores when the model answers \<open>a\<close>, then \<open>b\<close>.\<close>

definition new_chunk :: "chunker \<Rightarrow> string \<Rightarrow> string \<Rightarrow> string \<Rightarrow> string \<Rightarrow> chunk" where
  "new_chunk s cid p a b =
     \<lparr> chunk_id = cid, propositions = [p], title = py_strip b, summary = py_strip a,
       chunk_index = length (chunks s) \<rparr>"

text \<open>
  What holds of the store as long as no drawn id repeats: the indices count up in store
  order, every key is a drawn id, and there is one chunk for each completed creation.
\<close>

definition store_inv :: "env \<Rightarrow> chunker \<Rightarrow> bool" where
  "store_inv e s =
     (map chunk_index (dict_values (chunks s)) = [0..<length (chunks s)] \<and>
      set (dict_keys (chunks s)) \<subseteq> set (drawn_ids e s) \<and>
      length (chunks s) = creations s)"

definition step_ok :: "env \<Rightarrow> chunker \<Rightarrow> chunker \<Rightarrow> bool" where
  "step_ok e s s' =
     (id_truncate_limit s' = id_truncate_limit s \<and> uuid_calls s \<le> uuid_calls s' \<and>
      (distinct (drawn_ids e s') \<and> store_inv e s \<longrightarrow> store_inv e s'))"

section \<open>Example stores and models\<close>

definition chunk_dates :: chunk where
  "chunk_dates = \<lparr> chunk_id = ''d41a2'', propositions = [''The month is October.''],
      title = ''Dates & Time'', summary = ''This chunk is about dates.'', chunk_index = 0 \<rparr>"

definition chunk_food :: chunk where
  "chunk_food = \<lparr> chunk_id = ''0b7c3'', propositions = [''Greg likes pizza.''],
      title = ''Food Preferences'', summary = ''This chunk is about food people like.'',
      chunk_index = 1 \<rparr>"

definition store_two :: chunker where
  "store_two = init\<lparr>chunks := [(''d41a2'', chunk_dates), (''0b7c3'', chunk_food)]\<rparr>"

definition store_frozen :: chunker where
  "store_frozen = store_two\<lparr>generate_new_metadata_ind := False\<rparr>"

text \<open>A model that gives the same answer to every prompt, and one that always raises.\<close>

definition answering :: "string \<Rightarrow> env" where
  "answering text = \<lparr> llm = (\<lambda>n q. Inr text),
      uuid4 = (\<lambda>n. ''6fa1e2d4-5b7c-4e8f-9a0b-1c2d3e4f5a6b'') \<rparr>"

definition failing :: env where
  "failing = \<lparr> llm = (\<lambda>n q. Inl OracleError),
      uuid4 = (\<lambda>n. ''6fa1e2d4-5b7c-4e8f-9a0b-1c2d3e4f5a6b'') \<rparr>"

text \<open>
  Models that place every proposition in the chunk \<open>d41a2\<close>: one that answers every
  prompt, one that raises on the title prompt of a refresh, one that raises on its summary
  prompt.
\<close>

definition related :: env where
  "related = \<lparr> llm = (\<lambda>n q. case q of
        UpdateSummaryPrompt ps sm \<Rightarrow> Inr ''This chunk is about dates and years.''
      | UpdateTitlePrompt ps sm t \<Rightarrow> Inr ''Dates & Time''
      | NewSummaryPrompt p \<Rightarrow> Inr ''This chunk is about dates.''
      | NewTitlePrompt sm \<Rightarrow> Inr ''Dates & Time''
      | FindChunkPrompt p outline \<Rightarrow> Inr ''d41a2''),
      uuid4 = (\<lambda>n. ''d41a2f3c-9b1e-4c7a-8f2d-5e6b7a8c9d01'') \<rparr>"

definition refresh_title_fails :: env where
  "refresh_title_fails = \<lparr> llm = (\<lambda>n q. case q of
        UpdateSummaryPrompt ps sm \<Rightarrow> Inr ''This chunk is about dates and years.''
      | UpdateTitlePrompt ps sm t \<Rightarrow> Inl OracleError
      | NewSummaryPrompt p \<Rightarrow> Inr ''This chunk is about dates.''
      | NewTitlePrompt sm \<Rightarrow> Inr ''Dates & Time''
      | FindChunkPrompt p outline \<Rightarrow> Inr ''d41a2''),
      uuid4 = (\<lambda>n. ''6fa1e2d4-5b7c-4e8f-9a0b-1c2d3e4f5a6b'') \<rparr>"

definition refresh_summary_fails :: env where
  "refresh_summary_fails = \<lparr> llm = (\<lambda>n q. case q of
        UpdateSummaryPrompt ps sm \<Rightarrow> Inl OracleError
      | UpdateTitlePrompt ps sm t \<Rightarrow> Inr ''Dates & Time''
      | NewSummaryPrompt p \<Rightarrow> Inr ''This chunk is about dates.''
      | NewTitlePrompt sm \<Rightarrow> Inl OracleError
      | FindChunkPrompt p outline \<Rightarrow> Inr ''d41a2''),
      uuid4 = (\<lambda>n. ''6fa1e2d4-5b7c-4e8f-9a0b-1c2d3e4f5a6b'') \<rparr>"

text \<open>
  Models that place every proposition in no chunk.  With \<open>unrelated\<close> the first two
  ids differ; with \<open>colliding\<close> the third uuid starts as the first one does.
\<close>

definition unrelated :: env where
  "unrelated = \<lparr> llm = (\<lambda>n q. case q of
        UpdateSummaryPrompt ps sm \<Rightarrow> Inr sm
      | UpdateTitlePrompt ps sm t \<Rightarrow> Inr t
      | NewSummaryPrompt p \<Rightarrow> Inr p
      | NewTitlePrompt sm \<Rightarrow> Inr ''A title''
      | FindChunkPrompt p outline \<Rightarrow> Inr ''NONE''),
      uuid4 = (\<lambda>n. if n = 0 then ''d41a2f3c-9b1e-4c7a-8f2d-5e6b7a8c9d01''
                   else ''0b7c3e11-2a4d-4f6b-9c8e-7d6f5e4c3b2a'') \<rparr>"

definition colliding :: env where
  "colliding = \<lparr> llm = (\<lambda>n q. case q of
        UpdateSummaryPrompt ps sm \<Rightarrow> Inr sm
      | UpdateTitlePrompt ps sm t \<Rightarrow> Inr t
      | NewSummaryPrompt p \<Rightarrow> Inr p
      | NewTitlePrompt sm \<Rightarrow> Inr ''A title''
      | FindChunkPrompt p outline \<Rightarrow> Inr ''NONE''),
      uuid4 = (\<lambda>n. if n = 0 then ''d41a2f3c-9b1e-4c7a-8f2d-5e6b7a8c9d01''
                   else if n = 1 then ''0b7c3e11-2a4d-4f6b-9c8e-7d6f5e4c3b2a''
                   else if n = 2 then ''d41a2b7e-63c0-4d19-a5f8-0c1d2e3f4a5b''
                   else ''9e8f7a6b-5c4d-4e3f-8a1b-2c3d4e5f6a7b'') \<rparr>"

section \<open>Properties\<close>

subsection \<open>Strings\<close>

lemma upper_lower_char: "py_upper_char (py_lower_char c) = py_upper_char c"
  unfolding py_upper_char_def py_lower_char_def by auto

lemma lower_upper_char: "py_lower_char (py_upper_char c) = py_lower_char c"
  unfolding py_upper_char_def py_lower_char_def by auto

lemma upper_lower: "py_upper (py_lower s) = py_upper s"
  by (simp add: py_upper_def py_lower_def upper_lower_char)

lemma lower_upper: "py_lower (py_upper s) = py_lower s"
  by (simp add: py_upper_def py_lower_def lower_upper_char)

lemma upper_eq_iff_ci_equal: "py_upper a = py_upper b \<longleftrightarrow> ci_equal a b"
  unfolding ci_equal_def by (metis upper_lower lower_upper)

lemma upper_phrases:
  "py_upper ''none'' = ''NONE''" "py_upper ''no match'' = ''NO MATCH''"
  "py_upper ''no chunks'' = ''NO CHUNKS''" "py_upper ''no'' = ''NO''"
  by code_simp+

lemma sentinel_iff:
  "py_upper result \<in> set [''NONE'', ''NO CHUNKS'', ''NO MATCH'', ''NO'']
     \<longleftrightarrow> (\<exists>ph \<in> set no_match_phrases. ci_equal result ph)"
  by (auto simp: no_match_phrases_def upper_phrases simp flip: upper_eq_iff_ci_equal)

lemma isspace_lower: "py_isspace c \<Longrightarrow> py_isspace (py_lower_char c)"
  unfolding py_isspace_def py_lower_char_def by auto

lemma strip_self: "s \<noteq> [] \<Longrightarrow> \<not> py_isspace (hd s) \<Longrightarrow> \<not> py_isspace (last s) \<Longrightarrow> py_strip s = s"
proof -
  assume ne: "s \<noteq> []" and h: "\<not> py_isspace (hd s)" and l: "\<not> py_isspace (last s)"
  from ne h have 1: "dropWhile py_isspace s = s" by (cases s) auto
  from ne l have 2: "dropWhile py_isspace (rev s) = rev s"
    by (cases "rev s") (auto simp: last_rev [symmetric] simp del: last_rev)
  show ?thesis by (simp add: py_strip_def 1 2)
qed

text \<open>
  The twelve white-space characters are removed at both ends and kept inside; the
  characters next to them in the code table are kept.
\<close>

lemma py_strip_white_space:
  "py_strip ([CHR 0x09, CHR 0x0A, CHR 0x0B, CHR 0x0C, CHR 0x0D, CHR 0x1C, CHR 0x1D, CHR 0x1E,
      CHR 0x1F, CHR 0x20, CHR 0x85, CHR 0xA0] @ ''a b'' @ [CHR 0xA0, CHR 0x85, CHR 0x20]) = ''a b''"
  by code_simp

lemma py_strip_other_characters:
  "py_strip [CHR 0x08, CHR 0x0E, CHR 0x1B, CHR 0x21, CHR 0x84, CHR 0x86, CHR 0x9F, CHR 0xA1] =
     [CHR 0x08, CHR 0x0E, CHR 0x1B, CHR 0x21, CHR 0x84, CHR 0x86, CHR 0x9F, CHR 0xA1]"
  by code_simp

lemma phrase_ends:
  assumes "ph \<in> set no_match_phrases"
  shows "ph \<noteq> [] \<and> \<not> py_isspace (hd (py_lower ph)) \<and> \<not> py_isspace (last (py_lower ph))"
proof -
  have "\<not> py_isspace (hd (py_lower ''none''))" "\<not> py_isspace (last (py_lower ''none''))"
    "\<not> py_isspace (hd (py_lower ''no match''))" "\<not> py_isspace (last (py_lower ''no match''))"
    "\<not> py_isspace (hd (py_lower ''no chunks''))" "\<not> py_isspace (last (py_lower ''no chunks''))"
    "\<not> py_isspace (hd (py_lower ''no''))" "\<not> py_isspace (last (py_lower ''no''))"
    by code_simp+
  with assms show ?thesis by (auto simp: no_match_phrases_def)
qed

lemma strip_ci_phrase:
  assumes "ph \<in> set no_match_phrases" and "ci_equal raw ph"
  shows "py_strip raw = raw"
proof -
  from assms(2) have eq: "py_lower raw = py_lower ph" by (simp add: ci_equal_def)
  from phrase_ends [OF assms(1)] have ph: "ph \<noteq> []"
    and h: "\<not> py_isspace (hd (py_lower ph))" and l: "\<not> py_isspace (last (py_lower ph))"
    by simp_all
  from eq ph have ne: "raw \<noteq> []" by (auto simp: py_lower_def)
  from ne have "hd (py_lower raw) = py_lower_char (hd raw)"
    by (simp add: py_lower_def hd_map)
  with h eq have 1: "\<not> py_isspace (hd raw)" using isspace_lower by metis
  from ne have "last (py_lower raw) = py_lower_char (last raw)"
    by (simp add: py_lower_def last_map)
  with l eq have 2: "\<not> py_isspace (last raw)" using isspace_lower by metis
  from ne 1 2 show ?thesis by (rule strip_self)
qed

lemma starts_with_iff: "starts_with s sub \<longleftrightarrow> (\<exists>after. s = sub @ after)"
  by (induction s sub rule: starts_with.induct) auto

lemma py_in_str_iff: "py_in_str sub s \<longleftrightarrow> contiguous_substring sub s"
proof (induction s)
  case Nil
  show ?case by (auto simp: contiguous_substring_def)
next
  case (Cons d s)
  show ?case
  proof
    assume "py_in_str sub (d # s)"
    then consider "starts_with (d # s) sub" | "py_in_str sub s" by auto
    then show "contiguous_substring sub (d # s)"
    proof cases
      case 1
      then obtain after where "d # s = sub @ after" by (auto simp: starts_with_iff)
      then have "d # s = [] @ sub @ after" by simp
      then show ?thesis unfolding contiguous_substring_def by blast
    next
      case 2
      then obtain before after where "s = before @ sub @ after"
        using Cons.IH by (auto simp: contiguous_substring_def)
      then have "d # s = (d # before) @ sub @ after" by simp
      then show ?thesis unfolding contiguous_substring_def by blast
    qed
  next
    assume "contiguous_substring sub (d # s)"
    then obtain before after where eq: "d # s = before @ sub @ after"
      by (auto simp: contiguous_substring_def)
    show "py_in_str sub (d # s)"
    proof (cases before)
      case Nil
      with eq have "starts_with (d # s) sub" by (auto simp: starts_with_iff)
      then show ?thesis by simp
    next
      case (Cons b before')
      with eq have "s = before' @ sub @ after" by simp
      then have "contiguous_substring sub s" unfolding contiguous_substring_def by blast
      then show ?thesis using Cons.IH by simp
    qed
  qed
qed

subsection \<open>The placement resolver\<close>

lemma dict_contains_iff: "dict_contains d k \<longleftrightarrow> k \<in> set (dict_keys d)"
  by (induction d) (auto simp: dict_contains_def dict_keys_def)

lemma scan_chunk_ids_None:
  "scan_chunk_ids cids result = None \<longleftrightarrow> (\<forall>k \<in> set cids. \<not> py_in_str k result)"
  by (induction cids) auto

lemma scan_chunk_ids_Some:
  "scan_chunk_ids cids result = Some k \<longleftrightarrow>
     (\<exists>before after. cids = before @ k # after \<and> py_in_str k result \<and>
        (\<forall>k' \<in> set before. \<not> py_in_str k' result))"
proof (induction cids)
  case Nil
  show ?case by simp
next
  case (Cons c cids)
  show ?case
  proof (cases "py_in_str c result")
    case True
    have "(\<exists>before after. c # cids = before @ k # after \<and> py_in_str k result \<and>
        (\<forall>k' \<in> set before. \<not> py_in_str k' result)) \<longleftrightarrow> c = k"
    proof
      assume "\<exists>before after. c # cids = before @ k # after \<and> py_in_str k result \<and>
        (\<forall>k' \<in> set before. \<not> py_in_str k' result)"
      then obtain before after where *: "c # cids = before @ k # after"
        "\<forall>k' \<in> set before. \<not> py_in_str k' result" by blast
      with True show "c = k" by (cases before) auto
    next
      assume "c = k"
      with True have "c # cids = [] @ k # cids \<and> py_in_str k result \<and>
        (\<forall>k' \<in> set []. \<not> py_in_str k' result)" by simp
      then show "\<exists>before after. c # cids = before @ k # after \<and> py_in_str k result \<and>
        (\<forall>k' \<in> set before. \<not> py_in_str k' result)" by blast
    qed
    with True show ?thesis by auto
  next
    case False
    have "(\<exists>before after. c # cids = before @ k # after \<and> py_in_str k result \<and>
        (\<forall>k' \<in> set before. \<not> py_in_str k' result)) \<longleftrightarrow>
      (\<exists>before after. cids = before @ k # after \<and> py_in_str k result \<and>
        (\<forall>k' \<in> set before. \<not> py_in_str k' result))" (is "?L \<longleftrightarrow> ?R")
    proof
      assume ?L
      then obtain before after where *: "c # cids = before @ k # after" "py_in_str k result"
        "\<forall>k' \<in> set before. \<not> py_in_str k' result" by blast
      with False obtain b' where "before = c # b'" by (cases before) auto
      with * have "cids = b' @ k # after \<and> py_in_str k result \<and>
        (\<forall>k' \<in> set b'. \<not> py_in_str k' result)" by simp
      then show ?R by blast
    next
      assume ?R
      then obtain before after where *: "cids = before @ k # after" "py_in_str k result"
        "\<forall>k' \<in> set before. \<not> py_in_str k' result" by blast
      with False have "c # cids = (c # before) @ k # after \<and> py_in_str k result \<and>
        (\<forall>k' \<in> set (c # before). \<not> py_in_str k' result)" by simp
      then show ?L by blast
    qed
    with False Cons.IH show ?thesis by simp
  qed
qed

lemma invoke_answer:
  "llm e (length (llm_log s)) q = Inr raw \<Longrightarrow>
   invoke e s q = (Inr (py_strip raw), s\<lparr>llm_log := llm_log s @ [(q, Inr raw)]\<rparr>)"
  by (simp add: invoke_def Let_def)

lemma find_relevant_chunk_answer:
  assumes "llm e (length (llm_log s)) (FindChunkPrompt p (get_chunk_outline s)) = Inr raw"
  shows "find_relevant_chunk e s p =
     (Inr (match_result s (py_strip raw)),
      s\<lparr>llm_log := llm_log s @ [(FindChunkPrompt p (get_chunk_outline s), Inr raw)]\<rparr>)"
  using assms by (simp add: find_relevant_chunk_def invoke_answer match_result_def Let_def)

lemma match_result_sentinel:
  assumes "ph \<in> set no_match_phrases" and "ci_equal result ph"
  shows "match_result s result = None"
proof -
  from assms have "py_upper result \<in> set [''NONE'', ''NO CHUNKS'', ''NO MATCH'', ''NO'']"
    unfolding sentinel_iff by blast
  then show ?thesis by (simp add: match_result_def)
qed

text \<open>
  C2.  Whatever the store holds and whatever the proposition is: when the answer of the
  model to the placement prompt, as it comes or stripped of white space, equals one of the
  phrases \<open>none\<close>, \<open>no match\<close>, \<open>no chunks\<close>, \<open>no\<close> without regard
  to case, \<open>_find_relevant_chunk\<close> returns \<open>None\<close>.
\<close>

theorem find_relevant_chunk_sentinel:
  assumes answer: "llm e (length (llm_log s)) (FindChunkPrompt p (get_chunk_outline s)) = Inr raw"
    and phrase: "ph \<in> set no_match_phrases"
    and equal: "ci_equal raw ph \<or> ci_equal (py_strip raw) ph"
  shows "fst (find_relevant_chunk e s p) = Inr None"
proof -
  from phrase equal have "ci_equal (py_strip raw) ph"
    using strip_ci_phrase by fastforce
  with phrase have "match_result s (py_strip raw) = None"
    by (rule match_result_sentinel)
  with answer show ?thesis by (simp add: find_relevant_chunk_answer)
qed

lemma match_result_scan:
  assumes "\<not> no_match_sentinel result"
    and "result \<notin> set (dict_keys (chunks s))"
    and "take (id_truncate_limit s) result \<notin> set (dict_keys (chunks s))"
  shows "match_result s result = scan_chunk_ids (dict_keys (chunks s)) result"
  using assms sentinel_iff [of result]
  by (simp add: match_result_def dict_contains_iff no_match_sentinel_def)

lemma match_result_no_tier:
  assumes "result \<notin> set (dict_keys (chunks s))"
    and "take (id_truncate_limit s) result \<notin> set (dict_keys (chunks s))"
    and "\<forall>k \<in> set (dict_keys (chunks s)). \<not> contiguous_substring k result"
  shows "match_result s result = None"
  using assms
  by (simp add: match_result_def dict_contains_iff scan_chunk_ids_None py_in_str_iff)

text \<open>
  C1.  Let the stripped answer be neither a key of the store nor, cut to the id length, a
  key of the store.  If the store is not empty, the answer is not a "no match" phrase and
  some key occurs inside the answer, then \<open>_find_relevant_chunk\<close> returns the first
  key in store order that occurs inside it.  If no key occurs inside the answer, it
  returns \<open>None\<close>.
\<close>

theorem find_relevant_chunk_substring_tier:
  assumes answer: "llm e (length (llm_log s)) (FindChunkPrompt p (get_chunk_outline s)) = Inr raw"
    and result: "result = py_strip raw"
    and no_exact: "result \<notin> set (dict_keys (chunks s))"
    and no_trunc: "take (id_truncate_limit s) result \<notin> set (dict_keys (chunks s))"
  shows "(chunks s \<noteq> [] \<and> \<not> no_match_sentinel result \<and>
          (\<exists>k \<in> set (dict_keys (chunks s)). contiguous_substring k result) \<longrightarrow>
          (\<exists>before k after. dict_keys (chunks s) = before @ k # after \<and>
             contiguous_substring k result \<and>
             (\<forall>k' \<in> set before. \<not> contiguous_substring k' result) \<and>
             fst (find_relevant_chunk e s p) = Inr (Some k))) \<and>
         ((\<forall>k \<in> set (dict_keys (chunks s)). \<not> contiguous_substring k result) \<longrightarrow>
          fst (find_relevant_chunk e s p) = Inr None)"
proof (intro conjI impI)
  assume a: "chunks s \<noteq> [] \<and> \<not> no_match_sentinel result \<and>
          (\<exists>k \<in> set (dict_keys (chunks s)). contiguous_substring k result)"
  then have scan: "match_result s result = scan_chunk_ids (dict_keys (chunks s)) result"
    using no_exact no_trunc by (simp add: match_result_scan)
  from a have "scan_chunk_ids (dict_keys (chunks s)) result \<noteq> None"
    by (simp add: scan_chunk_ids_None py_in_str_iff)
  then obtain k where k: "scan_chunk_ids (dict_keys (chunks s)) result = Some k" by blast
  then obtain before after where
    "dict_keys (chunks s) = before @ k # after" "contiguous_substring k result"
    "\<forall>k' \<in> set before. \<not> contiguous_substring k' result"
    unfolding scan_chunk_ids_Some py_in_str_iff by blast
  moreover have "fst (find_relevant_chunk e s p) = Inr (Some k)"
    using answer result scan k by (simp add: find_relevant_chunk_answer)
  ultimately show "\<exists>before k after. dict_keys (chunks s) = before @ k # after \<and>
             contiguous_substring k result \<and>
             (\<forall>k' \<in> set before. \<not> contiguous_substring k' result) \<and>
             fst (find_relevant_chunk e s p) = Inr (Some k)" by blast
next
  assume "\<forall>k \<in> set (dict_keys (chunks s)). \<not> contiguous_substring k result"
  with no_exact no_trunc have "match_result s result = None"
    by (rule match_result_no_tier)
  with answer result show "fst (find_relevant_chunk e s p) = Inr None"
    by (simp add: find_relevant_chunk_answer)
qed

theorem find_relevant_chunk_sentinel_witness:
  "fst (find_relevant_chunk (answering ''No Match'') store_two ''The year is 2023.'') = Inr None"
proof -
  have 1: "llm (answering ''No Match'') (length (llm_log store_two))
     (FindChunkPrompt ''The year is 2023.'' (get_chunk_outline store_two)) = Inr ''No Match''"
    by (simp add: answering_def)
  have 2: "''no match'' \<in> set no_match_phrases" by (simp add: no_match_phrases_def)
  have 3: "ci_equal ''No Match'' ''no match''" unfolding ci_equal_def by code_simp
  show ?thesis using find_relevant_chunk_sentinel [OF 1 2] 3 by blast
qed

theorem find_relevant_chunk_substring_tier_witness:
  "fst (find_relevant_chunk (answering ''It belongs to chunk 0b7c3.'') store_two
          ''Greg likes pasta.'') = Inr (Some ''0b7c3'') \<and>
   fst (find_relevant_chunk (answering ''I am not sure.'') store_two
          ''Greg likes pasta.'') = Inr None"
proof
  let ?e = "answering ''It belongs to chunk 0b7c3.''"
  let ?r = "''It belongs to chunk 0b7c3.''"
  have keys: "dict_keys (chunks store_two) = [''d41a2'', ''0b7c3'']"
    by (simp add: store_two_def dict_keys_def)
  have 1: "llm ?e (length (llm_log store_two))
     (FindChunkPrompt ''Greg likes pasta.'' (get_chunk_outline store_two)) = Inr ?r"
    by (simp add: answering_def)
  have 2: "?r = py_strip ?r" by code_simp
  have 3: "?r \<notin> set (dict_keys (chunks store_two))" by (simp add: keys)
  have 4: "take (id_truncate_limit store_two) ?r \<notin> set (dict_keys (chunks store_two))"
    by (simp add: keys) (simp add: store_two_def init_def)
  have 5: "chunks store_two \<noteq> []" by (simp add: store_two_def)
  have 6: "\<not> no_match_sentinel ?r"
    unfolding no_match_sentinel_def sentinel_iff [symmetric] by code_simp
  have in1: "\<not> py_in_str ''d41a2'' ?r" by code_simp
  have in2: "py_in_str ''0b7c3'' ?r" by code_simp
  have 7: "\<exists>k \<in> set (dict_keys (chunks store_two)). contiguous_substring k ?r"
    using in2 by (simp add: keys py_in_str_iff)
  from find_relevant_chunk_substring_tier [OF 1 2 3 4] 5 6 7
  have "\<exists>before k after. dict_keys (chunks store_two) = before @ k # after \<and>
      contiguous_substring k ?r \<and> (\<forall>k' \<in> set before. \<not> contiguous_substring k' ?r) \<and>
      fst (find_relevant_chunk ?e store_two ''Greg likes pasta.'') = Inr (Some k)"
    by blast
  then obtain before k after where ks: "dict_keys (chunks store_two) = before @ k # after"
    and sub: "contiguous_substring k ?r"
    and res: "fst (find_relevant_chunk ?e store_two ''Greg likes pasta.'') = Inr (Some k)"
    by blast
  from ks have "k \<in> set (dict_keys (chunks store_two))" by simp
  then have "k = ''d41a2'' \<or> k = ''0b7c3''" by (simp add: keys)
  with in1 sub have "k = ''0b7c3''" by (auto simp: py_in_str_iff)
  with res show "fst (find_relevant_chunk ?e store_two ''Greg likes pasta.'') = Inr (Some ''0b7c3'')"
    by simp
next
  let ?e = "answering ''I am not sure.''"
  let ?r = "''I am not sure.''"
  have keys: "dict_keys (chunks store_two) = [''d41a2'', ''0b7c3'']"
    by (simp add: store_two_def dict_keys_def)
  have 1: "llm ?e (length (llm_log store_two))
     (FindChunkPrompt ''Greg likes pasta.'' (get_chunk_outline store_two)) = Inr ?r"
    by (simp add: answering_def)
  have 2: "?r = py_strip ?r" by code_simp
  have 3: "?r \<notin> set (dict_keys (chunks store_two))" by (simp add: keys)
  have 4: "take (id_truncate_limit store_two) ?r \<notin> set (dict_keys (chunks store_two))"
    by (simp add: keys) (simp add: store_two_def init_def)
  have in1: "\<not> py_in_str ''d41a2'' ?r" by code_simp
  have in2: "\<not> py_in_str ''0b7c3'' ?r" by code_simp
  have 7: "\<forall>k \<in> set (dict_keys (chunks store_two)). \<not> contiguous_substring k ?r"
    using in1 in2 by (simp add: keys py_in_str_iff)
  from find_relevant_chunk_substring_tier [OF 1 2 3 4] 7
  show "fst (find_relevant_chunk ?e store_two ''Greg likes pasta.'') = Inr None"
    by blast
qed

subsection \<open>Dictionaries\<close>

lemma dict_get_dict_set:
  "dict_get (dict_set d k v) k' = (if k' = k then Some v else dict_get d k')"
  by (induction d) auto

lemma dict_keys_dict_set:
  "dict_keys (dict_set d k v) =
     (if k \<in> set (dict_keys d) then dict_keys d else dict_keys d @ [k])"
  by (induction d) (force simp: dict_keys_def)+

lemma dict_set_fresh: "k \<notin> set (dict_keys d) \<Longrightarrow> dict_set d k v = d @ [(k, v)]"
  by (induction d) (auto simp: dict_keys_def)

lemma dict_get_keys: "dict_get d k = Some v \<Longrightarrow> k \<in> set (dict_keys d)"
  by (induction d) (auto simp: dict_keys_def split: if_splits)

lemma length_dict_set:
  "length (dict_set d k v) = (if k \<in> set (dict_keys d) then length d else Suc (length d))"
proof -
  have "length (dict_set d k v) = length (dict_keys (dict_set d k v))"
    by (simp add: dict_keys_def)
  also have "\<dots> = (if k \<in> set (dict_keys d) then length d else Suc (length d))"
    by (simp add: dict_keys_dict_set) (simp add: dict_keys_def)
  finally show ?thesis .
qed

subsection \<open>The views of \<open>get_chunks\<close>\<close>

lemma py_join_space: "py_join '' '' ps = space_joined ps"
  by (induction "'' ''" ps rule: py_join.induct) (simp_all add: space_joined_def)

lemma join_loop_map:
  "join_loop acc cs = acc @ map (\<lambda>c. py_join '' '' (propositions c)) cs"
  by (induction cs arbitrary: acc) simp_all

text \<open>
  C8.  \<open>get_chunks('list_of_strings')\<close> returns one string for each chunk of the store,
  in store order, and each string is the propositions of that chunk in their order with one
  space between neighbours.  The store is left as it was.
\<close>

theorem get_chunks_list_of_strings:
  "get_chunks s (PyStr ''list_of_strings'') = (Some (ListOfStrings (flattened_view s)), s) \<and>
   length (flattened_view s) = length (chunks s)"
  by (simp add: get_chunks_def join_loop_map py_join_space flattened_view_def dict_values_def
      case_prod_unfold)

text \<open>
  The scenario of the specification: two propositions that the model relates end in one
  chunk, and the view is the one string.
\<close>

lemma scenario_related:
  "fst (get_chunks
     (snd (add_propositions related init [''The month is October.'', ''The year is 2023.'']))
     (PyStr ''list_of_strings'')) =
   Some (ListOfStrings [''The month is October. The year is 2023.''])"
  by code_simp

text \<open>
  C10.  For an argument that is neither the string \<open>dict\<close> nor the string
  \<open>list_of_strings\<close>, \<open>get_chunks\<close> returns \<open>None\<close>: no exception, no
  collection, and the store is left as it was.
\<close>

theorem get_chunks_other_type:
  assumes "get_type \<noteq> PyStr ''dict''" and "get_type \<noteq> PyStr ''list_of_strings''"
  shows "get_chunks s get_type = (None, s)"
  using assms by (simp add: get_chunks_def)

theorem get_chunks_other_type_witness:
  "get_chunks store_two (PyStr ''list'') = (None, store_two) \<and>
   get_chunks store_two PyNone = (None, store_two)"
  using get_chunks_other_type [of "PyStr ''list''" store_two]
    get_chunks_other_type [of PyNone store_two]
  by simp

subsection \<open>The empty store\<close>

lemma match_result_empty: "chunks s = [] \<Longrightarrow> match_result s result = None"
  by (simp add: match_result_def dict_contains_def dict_keys_def)

lemma get_chunk_outline_empty: "chunks s = [] \<Longrightarrow> get_chunk_outline s = []"
  by (simp add: get_chunk_outline_def dict_values_def)

text \<open>
  C3 as stated fails: \<open>_find_relevant_chunk\<close> has no test for an empty store.  Called
  on the empty store it sends the placement prompt, with an empty outline.
\<close>

theorem find_relevant_chunk_empty_store_queries:
  "llm_log (snd (find_relevant_chunk (answering ''NONE'') init ''The month is October.'')) =
     [(FindChunkPrompt ''The month is October.'' [], Inr ''NONE'')]"
  by (simp add: find_relevant_chunk_def invoke_def get_chunk_outline_def dict_values_def
      init_def answering_def Let_def)

text \<open>
  C3, amended.  On an empty store \<open>_find_relevant_chunk\<close> sends exactly one placement
  prompt, with the empty outline; it raises what the model raises, and returns \<open>None\<close>
  whatever the model answers; the store stays empty.  The short cut is in
  \<open>add_proposition\<close>, which on an empty store is \<open>_create_new_chunk\<close> and does
  not call the resolver.
\<close>

theorem find_relevant_chunk_empty_store:
  assumes "chunks s = []"
  shows "llm_log (snd (find_relevant_chunk e s p)) =
           llm_log s @ [(FindChunkPrompt p [], llm e (length (llm_log s)) (FindChunkPrompt p []))] \<and>
         fst (find_relevant_chunk e s p) =
           (case llm e (length (llm_log s)) (FindChunkPrompt p []) of
              Inl err \<Rightarrow> Inl err | Inr raw \<Rightarrow> Inr None) \<and>
         chunks (snd (find_relevant_chunk e s p)) = [] \<and>
         add_proposition e s p = create_new_chunk e s p"
  using assms
  by (simp add: find_relevant_chunk_def invoke_def get_chunk_outline_empty match_result_empty
      add_proposition_def Let_def split: sum.splits)

theorem find_relevant_chunk_empty_store_witness:
  "fst (find_relevant_chunk (answering ''d41a2'') init ''The month is October.'') = Inr None \<and>
   add_proposition (answering ''d41a2'') init ''The month is October.'' =
     create_new_chunk (answering ''d41a2'') init ''The month is October.''"
  using find_relevant_chunk_empty_store [of init "answering ''d41a2''" "''The month is October.''"]
  by (simp add: init_def answering_def)

subsection \<open>The three ways a creation can go\<close>

lemma create_new_chunk_summary_fails:
  assumes "llm e (length (llm_log s)) (NewSummaryPrompt p) = Inl err"
  shows "create_new_chunk e s p =
    (Inl err, s\<lparr>uuid_calls := Suc (uuid_calls s),
                llm_log := llm_log s @ [(NewSummaryPrompt p, Inl err)]\<rparr>)"
  using assms
  by (simp add: create_new_chunk_def get_new_chunk_summary_def invoke_def Let_def)

lemma create_new_chunk_title_fails:
  assumes "llm e (length (llm_log s)) (NewSummaryPrompt p) = Inr a"
    and "llm e (Suc (length (llm_log s))) (NewTitlePrompt (py_strip a)) = Inl err"
  shows "create_new_chunk e s p =
    (Inl err, s\<lparr>uuid_calls := Suc (uuid_calls s),
                llm_log := llm_log s @
                  [(NewSummaryPrompt p, Inr a), (NewTitlePrompt (py_strip a), Inl err)]\<rparr>)"
  using assms
  by (simp add: create_new_chunk_def get_new_chunk_summary_def get_new_chunk_title_def
      invoke_def Let_def)

lemma create_new_chunk_succeeds:
  assumes "llm e (length (llm_log s)) (NewSummaryPrompt p) = Inr a"
    and "llm e (Suc (length (llm_log s))) (NewTitlePrompt (py_strip a)) = Inr b"
  shows "create_new_chunk e s p =
    (Inr (), s\<lparr>uuid_calls := Suc (uuid_calls s),
               llm_log := llm_log s @
                 [(NewSummaryPrompt p, Inr a), (NewTitlePrompt (py_strip a), Inr b)],
               chunks := dict_set (chunks s) (take (id_truncate_limit s) (uuid4 e (uuid_calls s)))
                 (new_chunk s (take (id_truncate_limit s) (uuid4 e (uuid_calls s))) p a b)\<rparr>)"
  using assms
  by (simp add: create_new_chunk_def get_new_chunk_summary_def get_new_chunk_title_def
      invoke_def Let_def new_chunk_def)

lemma create_new_chunk_cases:
  obtains
    (summary_fails) err where "llm e (length (llm_log s)) (NewSummaryPrompt p) = Inl err"
  | (title_fails) a err where "llm e (length (llm_log s)) (NewSummaryPrompt p) = Inr a"
      "llm e (Suc (length (llm_log s))) (NewTitlePrompt (py_strip a)) = Inl err"
  | (succeeds) a b where "llm e (length (llm_log s)) (NewSummaryPrompt p) = Inr a"
      "llm e (Suc (length (llm_log s))) (NewTitlePrompt (py_strip a)) = Inr b"
proof (cases "llm e (length (llm_log s)) (NewSummaryPrompt p)")
  case (Inl err)
  then show ?thesis by (rule summary_fails)
next
  case (Inr a)
  then show ?thesis
    by (cases "llm e (Suc (length (llm_log s))) (NewTitlePrompt (py_strip a))")
      (auto intro: title_fails succeeds)
qed

text \<open>
  C7.  On an empty store \<open>add_proposition\<close> sends no placement prompt.  It returns
  normally exactly when the model answers the two prompts of the creation, and then the
  store holds one chunk, with the proposition as its only member and index 0.
\<close>

theorem add_proposition_empty_store:
  assumes "chunks s = []"
  shows "placement_queries (llm_log (snd (add_proposition e s p))) = placement_queries (llm_log s) \<and>
    (fst (add_proposition e s p) = Inr () \<longleftrightarrow>
       (\<exists>a b. llm e (length (llm_log s)) (NewSummaryPrompt p) = Inr a \<and>
              llm e (Suc (length (llm_log s))) (NewTitlePrompt (py_strip a)) = Inr b)) \<and>
    (\<forall>a b. llm e (length (llm_log s)) (NewSummaryPrompt p) = Inr a \<and>
           llm e (Suc (length (llm_log s))) (NewTitlePrompt (py_strip a)) = Inr b \<longrightarrow>
       chunks (snd (add_proposition e s p)) =
         [(take (id_truncate_limit s) (uuid4 e (uuid_calls s)),
           \<lparr> chunk_id = take (id_truncate_limit s) (uuid4 e (uuid_calls s)),
             propositions = [p], title = py_strip b, summary = py_strip a,
             chunk_index = 0 \<rparr>)])"
proof -
  have eq: "add_proposition e s p = create_new_chunk e s p"
    using assms by (simp add: add_proposition_def)
  show ?thesis
  proof (cases rule: create_new_chunk_cases [of e s p])
    case (summary_fails err)
    then show ?thesis
      by (simp add: eq create_new_chunk_summary_fails placement_queries_def)
  next
    case (title_fails a err)
    then show ?thesis
      by (simp add: eq create_new_chunk_title_fails placement_queries_def)
  next
    case (succeeds a b)
    then show ?thesis
      using assms
      by (simp add: eq create_new_chunk_succeeds placement_queries_def new_chunk_def)
  qed
qed

theorem add_proposition_empty_store_witness:
  "fst (add_proposition (answering '' Dates & Time '') init ''The month is October.'') = Inr () \<and>
   chunks (snd (add_proposition (answering '' Dates & Time '') init ''The month is October.'')) =
     [(''6fa1e'', \<lparr> chunk_id = ''6fa1e'', propositions = [''The month is October.''],
          title = ''Dates & Time'', summary = ''Dates & Time'', chunk_index = 0 \<rparr>)] \<and>
   placement_queries
     (llm_log (snd (add_proposition (answering '' Dates & Time '') init ''The month is October.''))) = []"
proof -
  have strip: "py_strip '' Dates & Time '' = ''Dates & Time''" by code_simp
  have 1: "chunks init = []" by (simp add: init_def)
  show ?thesis
    using add_proposition_empty_store [OF 1, of "answering '' Dates & Time ''" "''The month is October.''"]
    by (simp add: answering_def init_def strip placement_queries_def)
qed

subsection \<open>Appending with the metadata frozen\<close>

text \<open>
  C9.  With \<open>generate_new_metadata_ind\<close> off, \<open>add_proposition_to_chunk\<close> on a
  chunk of the store returns normally and changes nothing but the store; there the chunk
  has the proposition appended and its title, summary, id and index as before, every other
  key has the value it had, and the keys and their order are the same.
\<close>

theorem add_proposition_to_chunk_frozen_metadata:
  assumes "\<not> generate_new_metadata_ind s" and "dict_get (chunks s) cid = Some c"
  shows "add_proposition_to_chunk e s cid p =
      (Inr (), s\<lparr>chunks := chunks (snd (add_proposition_to_chunk e s cid p))\<rparr>) \<and>
    (\<exists>c'. dict_get (chunks (snd (add_proposition_to_chunk e s cid p))) cid = Some c' \<and>
       propositions c' = propositions c @ [p] \<and> title c' = title c \<and>
       summary c' = summary c \<and> chunk_id c' = chunk_id c \<and> chunk_index c' = chunk_index c) \<and>
    (\<forall>k. k \<noteq> cid \<longrightarrow>
       dict_get (chunks (snd (add_proposition_to_chunk e s cid p))) k = dict_get (chunks s) k) \<and>
    dict_keys (chunks (snd (add_proposition_to_chunk e s cid p))) = dict_keys (chunks s)"
  using assms dict_get_keys [of "chunks s" cid c]
  by (simp add: add_proposition_to_chunk_def Let_def dict_get_dict_set dict_keys_dict_set)

theorem add_proposition_to_chunk_frozen_metadata_witness:
  "dict_keys (chunks (snd (add_proposition_to_chunk (answering ''x'') store_frozen ''d41a2''
       ''The year is 2023.''))) = [''d41a2'', ''0b7c3''] \<and>
   dict_get (chunks (snd (add_proposition_to_chunk (answering ''x'') store_frozen ''d41a2''
       ''The year is 2023.''))) ''0b7c3'' = Some chunk_food \<and>
   (\<exists>c'. dict_get (chunks (snd (add_proposition_to_chunk (answering ''x'') store_frozen ''d41a2''
       ''The year is 2023.''))) ''d41a2'' = Some c' \<and>
     propositions c' = [''The month is October.'', ''The year is 2023.''] \<and>
     title c' = ''Dates & Time'' \<and> summary c' = ''This chunk is about dates.'')"
proof -
  have 1: "\<not> generate_new_metadata_ind store_frozen"
    by (simp add: store_frozen_def)
  have 2: "dict_get (chunks store_frozen) ''d41a2'' = Some chunk_dates"
    by (simp add: store_frozen_def store_two_def)
  have 3: "dict_get (chunks store_frozen) ''0b7c3'' = Some chunk_food"
    by (simp add: store_frozen_def store_two_def)
  have 4: "dict_keys (chunks store_frozen) = [''d41a2'', ''0b7c3'']"
    by (simp add: store_frozen_def store_two_def dict_keys_def)
  have 5: "propositions chunk_dates = [''The month is October.'']"
    "title chunk_dates = ''Dates & Time''" "summary chunk_dates = ''This chunk is about dates.''"
    by (simp_all add: chunk_dates_def)
  let ?s' = "snd (add_proposition_to_chunk (answering ''x'') store_frozen ''d41a2''
       ''The year is 2023.'')"
  note t = add_proposition_to_chunk_frozen_metadata [OF 1 2, of "answering ''x''" "''The year is 2023.''"]
  from t have keys: "dict_keys (chunks ?s') = dict_keys (chunks store_frozen)"
    by blast
  from t have "\<forall>k. k \<noteq> ''d41a2'' \<longrightarrow> dict_get (chunks ?s') k = dict_get (chunks store_frozen) k"
    by blast
  then have other: "dict_get (chunks ?s') ''0b7c3'' = dict_get (chunks store_frozen) ''0b7c3''"
    by simp
  from t have "\<exists>c'. dict_get (chunks ?s') ''d41a2'' = Some c' \<and>
      propositions c' = propositions chunk_dates @ [''The year is 2023.''] \<and>
      title c' = title chunk_dates \<and> summary c' = summary chunk_dates"
    by blast
  with keys other show ?thesis by (simp add: 3 4 5)
qed

subsection \<open>When the model raises\<close>

lemma dict_set_dict_set: "dict_set (dict_set d k v) k w = dict_set d k w"
  by (induction d) auto

lemma add_proposition_to_chunk_summary_fails:
  assumes "generate_new_metadata_ind s" and "dict_get (chunks s) cid = Some c"
    and "llm e (length (llm_log s))
           (UpdateSummaryPrompt (py_join newline (propositions c @ [p])) (summary c)) = Inl err"
  shows "add_proposition_to_chunk e s cid p =
    (Inl err, s\<lparr>chunks := dict_set (chunks s) cid (c\<lparr>propositions := propositions c @ [p]\<rparr>),
                llm_log := llm_log s @
                  [(UpdateSummaryPrompt (py_join newline (propositions c @ [p])) (summary c),
                    Inl err)]\<rparr>)"
  using assms
  by (simp add: add_proposition_to_chunk_def update_chunk_summary_def invoke_def Let_def)

lemma add_proposition_to_chunk_title_fails:
  assumes "generate_new_metadata_ind s" and "dict_get (chunks s) cid = Some c"
    and "llm e (length (llm_log s))
           (UpdateSummaryPrompt (py_join newline (propositions c @ [p])) (summary c)) = Inr a"
    and "llm e (Suc (length (llm_log s)))
           (UpdateTitlePrompt (py_join newline (propositions c @ [p])) (py_strip a) (title c)) =
         Inl err"
  shows "add_proposition_to_chunk e s cid p =
    (Inl err, s\<lparr>chunks := dict_set (chunks s) cid
                  (c\<lparr>propositions := propositions c @ [p], summary := py_strip a\<rparr>),
                llm_log := llm_log s @
                  [(UpdateSummaryPrompt (py_join newline (propositions c @ [p])) (summary c),
                    Inr a),
                   (UpdateTitlePrompt (py_join newline (propositions c @ [p])) (py_strip a)
                      (title c), Inl err)]\<rparr>)"
  using assms
  by (simp add: add_proposition_to_chunk_def update_chunk_summary_def update_chunk_title_def
      invoke_def Let_def dict_set_dict_set)

lemma add_proposition_to_chunk_succeeds:
  assumes "generate_new_metadata_ind s" and "dict_get (chunks s) cid = Some c"
    and "llm e (length (llm_log s))
           (UpdateSummaryPrompt (py_join newline (propositions c @ [p])) (summary c)) = Inr a"
    and "llm e (Suc (length (llm_log s)))
           (UpdateTitlePrompt (py_join newline (propositions c @ [p])) (py_strip a) (title c)) =
         Inr b"
  shows "add_proposition_to_chunk e s cid p =
    (Inr (), s\<lparr>chunks := dict_set (chunks s) cid
                  (c\<lparr>propositions := propositions c @ [p], summary := py_strip a,
                     title := py_strip b\<rparr>),
                llm_log := llm_log s @
                  [(UpdateSummaryPrompt (py_join newline (propositions c @ [p])) (summary c),
                    Inr a),
                   (UpdateTitlePrompt (py_join newline (propositions c @ [p])) (py_strip a)
                      (title c), Inr b)]\<rparr>)"
  using assms
  by (simp add: add_proposition_to_chunk_def update_chunk_summary_def update_chunk_title_def
      invoke_def Let_def dict_set_dict_set)

lemma add_proposition_to_chunk_frozen:
  assumes "\<not> generate_new_metadata_ind s" and "dict_get (chunks s) cid = Some c"
  shows "add_proposition_to_chunk e s cid p =
    (Inr (), s\<lparr>chunks := dict_set (chunks s) cid (c\<lparr>propositions := propositions c @ [p]\<rparr>)\<rparr>)"
  using assms by (simp add: add_proposition_to_chunk_def Let_def)

lemma add_proposition_to_chunk_missing:
  assumes "dict_get (chunks s) cid = None"
  shows "add_proposition_to_chunk e s cid p = (Inl KeyError, s)"
  using assms by (simp add: add_proposition_to_chunk_def)

lemma create_new_chunk_raises:
  assumes "fst (create_new_chunk e s p) = Inl err"
  shows "chunks (snd (create_new_chunk e s p)) = chunks s"
proof (cases rule: create_new_chunk_cases [of e s p])
  case (summary_fails err')
  then show ?thesis by (simp add: create_new_chunk_summary_fails)
next
  case (title_fails a err')
  then show ?thesis by (simp add: create_new_chunk_title_fails)
next
  case (succeeds a b)
  with assms show ?thesis by (simp add: create_new_chunk_succeeds)
qed

lemma find_relevant_chunk_chunks:
  "chunks (snd (find_relevant_chunk e s p)) = chunks s"
  by (simp add: find_relevant_chunk_def invoke_def Let_def split: sum.splits)

text \<open>
  C4 as stated fails.  The store holds the chunk \<open>d41a2\<close>; the model names it for the
  new proposition, answers the summary prompt of the refresh and raises on the title
  prompt.  \<open>add_proposition\<close> raises, and the chunk is left with the proposition
  appended, the new summary and the old title.
\<close>

theorem refresh_title_failure_keeps_new_summary:
  "fst (add_proposition refresh_title_fails store_two ''The year is 2023.'') = Inl OracleError \<and>
   dict_get (chunks (snd (add_proposition refresh_title_fails store_two ''The year is 2023.'')))
     ''d41a2'' =
   Some \<lparr> chunk_id = ''d41a2'',
          propositions = [''The month is October.'', ''The year is 2023.''],
          title = ''Dates & Time'',
          summary = ''This chunk is about dates and years.'',
          chunk_index = 0 \<rparr> \<and>
   dict_get (chunks store_two) ''d41a2'' =
   Some \<lparr> chunk_id = ''d41a2'',
          propositions = [''The month is October.''],
          title = ''Dates & Time'',
          summary = ''This chunk is about dates.'',
          chunk_index = 0 \<rparr>"
  by code_simp

text \<open>
  C4, amended.  A creation that raises leaves the store as it was, and so does a placement
  query that raises.  A refresh is not undone: when the summary prompt raises, the chunk
  keeps the appended proposition with its old summary and title; when the title prompt
  raises, the chunk keeps the appended proposition and the new summary, with its old title.
\<close>

theorem oracle_failure_states:
  "(fst (create_new_chunk e s p) = Inl err \<longrightarrow>
      chunks (snd (create_new_chunk e s p)) = chunks s) \<and>
   (fst (find_relevant_chunk e s p) = Inl err \<longrightarrow>
      chunks (snd (find_relevant_chunk e s p)) = chunks s) \<and>
   (generate_new_metadata_ind s \<and> dict_get (chunks s) cid = Some c \<and>
    llm e (length (llm_log s))
      (UpdateSummaryPrompt (py_join newline (propositions c @ [p])) (summary c)) = Inl err \<longrightarrow>
      fst (add_proposition_to_chunk e s cid p) = Inl err \<and>
      chunks (snd (add_proposition_to_chunk e s cid p)) =
        dict_set (chunks s) cid (c\<lparr>propositions := propositions c @ [p]\<rparr>)) \<and>
   (generate_new_metadata_ind s \<and> dict_get (chunks s) cid = Some c \<and>
    llm e (length (llm_log s))
      (UpdateSummaryPrompt (py_join newline (propositions c @ [p])) (summary c)) = Inr a \<and>
    llm e (Suc (length (llm_log s)))
      (UpdateTitlePrompt (py_join newline (propositions c @ [p])) (py_strip a) (title c)) =
      Inl err \<longrightarrow>
      fst (add_proposition_to_chunk e s cid p) = Inl err \<and>
      chunks (snd (add_proposition_to_chunk e s cid p)) =
        dict_set (chunks s) cid
          (c\<lparr>propositions := propositions c @ [p], summary := py_strip a\<rparr>))"
  by (simp add: create_new_chunk_raises find_relevant_chunk_chunks
      add_proposition_to_chunk_summary_fails add_proposition_to_chunk_title_fails)

theorem oracle_failure_states_witness:
  "chunks (snd (create_new_chunk failing store_two ''The year is 2023.'')) = chunks store_two \<and>
   chunks (snd (find_relevant_chunk failing store_two ''The year is 2023.'')) = chunks store_two \<and>
   chunks (snd (add_proposition_to_chunk refresh_summary_fails store_two ''d41a2''
                  ''The year is 2023.'')) =
     [(''d41a2'', chunk_dates\<lparr>propositions := [''The month is October.'', ''The year is 2023.'']\<rparr>),
      (''0b7c3'', chunk_food)] \<and>
   chunks (snd (add_proposition_to_chunk refresh_title_fails store_two ''d41a2''
                  ''The year is 2023.'')) =
     [(''d41a2'', chunk_dates\<lparr>propositions := [''The month is October.'', ''The year is 2023.''],
                              summary := ''This chunk is about dates and years.''\<rparr>),
      (''0b7c3'', chunk_food)]"
proof (intro conjI)
  have "fst (create_new_chunk failing store_two ''The year is 2023.'') = Inl OracleError"
    by code_simp
  with oracle_failure_states [of failing store_two "''The year is 2023.''" OracleError]
  show "chunks (snd (create_new_chunk failing store_two ''The year is 2023.'')) = chunks store_two"
    by blast
next
  have "fst (find_relevant_chunk failing store_two ''The year is 2023.'') = Inl OracleError"
    by code_simp
  with oracle_failure_states [of failing store_two "''The year is 2023.''" OracleError]
  show "chunks (snd (find_relevant_chunk failing store_two ''The year is 2023.'')) = chunks store_two"
    by blast
next
  have 1: "generate_new_metadata_ind store_two" by (simp add: store_two_def init_def)
  have 2: "dict_get (chunks store_two) ''d41a2'' = Some chunk_dates"
    by (simp add: store_two_def)
  have 3: "llm refresh_summary_fails (length (llm_log store_two))
      (UpdateSummaryPrompt (py_join newline (propositions chunk_dates @ [''The year is 2023.'']))
         (summary chunk_dates)) = Inl OracleError"
    by (simp add: refresh_summary_fails_def)
  from oracle_failure_states [of refresh_summary_fails store_two "''The year is 2023.''"
      OracleError "''d41a2''" chunk_dates] 1 2 3
  have "chunks (snd (add_proposition_to_chunk refresh_summary_fails store_two ''d41a2''
                  ''The year is 2023.'')) =
        dict_set (chunks store_two) ''d41a2''
          (chunk_dates\<lparr>propositions := propositions chunk_dates @ [''The year is 2023.'']\<rparr>)"
    by blast
  then show "chunks (snd (add_proposition_to_chunk refresh_summary_fails store_two ''d41a2''
                  ''The year is 2023.'')) =
     [(''d41a2'', chunk_dates\<lparr>propositions := [''The month is October.'', ''The year is 2023.'']\<rparr>),
      (''0b7c3'', chunk_food)]"
    by (simp add: store_two_def chunk_dates_def)
next
  let ?a = "''This chunk is about dates and years.''"
  have 1: "generate_new_metadata_ind store_two" by (simp add: store_two_def init_def)
  have 2: "dict_get (chunks store_two) ''d41a2'' = Some chunk_dates"
    by (simp add: store_two_def)
  have 3: "llm refresh_title_fails (length (llm_log store_two))
      (UpdateSummaryPrompt (py_join newline (propositions chunk_dates @ [''The year is 2023.'']))
         (summary chunk_dates)) = Inr ?a"
    by (simp add: refresh_title_fails_def)
  have 4: "llm refresh_title_fails (Suc (length (llm_log store_two)))
      (UpdateTitlePrompt (py_join newline (propositions chunk_dates @ [''The year is 2023.'']))
         (py_strip ?a) (title chunk_dates)) = Inl OracleError"
    by (simp add: refresh_title_fails_def)
  have 5: "py_strip ?a = ?a" by code_simp
  from oracle_failure_states [of refresh_title_fails store_two "''The year is 2023.''"
      OracleError "''d41a2''" chunk_dates ?a] 1 2 3 4
  have "chunks (snd (add_proposition_to_chunk refresh_title_fails store_two ''d41a2''
                  ''The year is 2023.'')) =
        dict_set (chunks store_two) ''d41a2''
          (chunk_dates\<lparr>propositions := propositions chunk_dates @ [''The year is 2023.''],
                       summary := py_strip ?a\<rparr>)"
    by blast
  then show "chunks (snd (add_proposition_to_chunk refresh_title_fails store_two ''d41a2''
                  ''The year is 2023.'')) =
     [(''d41a2'', chunk_dates\<lparr>propositions := [''The month is October.'', ''The year is 2023.''],
                              summary := ?a\<rparr>),
      (''0b7c3'', chunk_food)]"
    by (simp add: 5) (simp add: store_two_def chunk_dates_def)
qed

subsection \<open>Ids that collide\<close>

text \<open>
  C5 as stated fails.  Three propositions, each of which the model places in no chunk; the
  third uuid starts with the same five characters as the first.  After two creations the
  store holds two chunks; the third creation leaves it with two, and the chunk
  \<open>d41a2\<close> has lost its proposition to the new one.
\<close>

theorem colliding_id_overwrites_chunk:
  "fst (add_propositions colliding init
          [''The month is October.'', ''Greg likes pizza.'', ''The year is 2023.'']) = Inr () \<and>
   map (\<lambda>(k, c). (k, propositions c))
     (chunks (snd (add_propositions colliding init
          [''The month is October.'', ''Greg likes pizza.'']))) =
     [(''d41a2'', [''The month is October.'']), (''0b7c3'', [''Greg likes pizza.''])] \<and>
   map (\<lambda>(k, c). (k, propositions c))
     (chunks (snd (add_propositions colliding init
          [''The month is October.'', ''Greg likes pizza.'', ''The year is 2023.'']))) =
     [(''d41a2'', [''The year is 2023.'']), (''0b7c3'', [''Greg likes pizza.''])]"
  by code_simp

text \<open>
  C5, amended.  \<open>_create_new_chunk\<close> draws one uuid and keeps it.  When the model
  answers both prompts and the id is not a key of the store, the new chunk is put after the
  chunks of the store, which stay as they are, and the store has one chunk more.
\<close>

theorem create_new_chunk_fresh_id:
  assumes "llm e (length (llm_log s)) (NewSummaryPrompt p) = Inr a"
    and "llm e (Suc (length (llm_log s))) (NewTitlePrompt (py_strip a)) = Inr b"
    and "take (id_truncate_limit s) (uuid4 e (uuid_calls s)) \<notin> set (dict_keys (chunks s))"
  shows "fst (create_new_chunk e s p) = Inr () \<and>
    uuid_calls (snd (create_new_chunk e s p)) = Suc (uuid_calls s) \<and>
    chunks (snd (create_new_chunk e s p)) =
      chunks s @ [(take (id_truncate_limit s) (uuid4 e (uuid_calls s)),
        \<lparr> chunk_id = take (id_truncate_limit s) (uuid4 e (uuid_calls s)),
          propositions = [p], title = py_strip b, summary = py_strip a,
          chunk_index = length (chunks s) \<rparr>)] \<and>
    length (chunks (snd (create_new_chunk e s p))) = Suc (length (chunks s))"
  using assms by (simp add: create_new_chunk_succeeds dict_set_fresh new_chunk_def)

theorem create_new_chunk_fresh_id_witness:
  "length (chunks (snd (create_new_chunk (answering ''Years'') store_two ''The year is 2023.''))) = 3 \<and>
   take 2 (chunks (snd (create_new_chunk (answering ''Years'') store_two ''The year is 2023.''))) =
     chunks store_two"
proof -
  have 1: "llm (answering ''Years'') (length (llm_log store_two))
      (NewSummaryPrompt ''The year is 2023.'') = Inr ''Years''"
    by (simp add: answering_def)
  have 2: "llm (answering ''Years'') (Suc (length (llm_log store_two)))
      (NewTitlePrompt (py_strip ''Years'')) = Inr ''Years''"
    by (simp add: answering_def)
  have 3: "take (id_truncate_limit store_two) (uuid4 (answering ''Years'') (uuid_calls store_two))
      \<notin> set (dict_keys (chunks store_two))"
    by (simp add: answering_def store_two_def init_def dict_keys_def)
  from create_new_chunk_fresh_id [OF 1 2 3]
  show ?thesis by (simp add: store_two_def)
qed

subsection \<open>The indices of the chunks\<close>

lemma drawn_ids_take:
  assumes "id_truncate_limit s' = id_truncate_limit s" and "uuid_calls s \<le> uuid_calls s'"
  shows "drawn_ids e s = take (uuid_calls s) (drawn_ids e s')"
  using assms by (simp add: drawn_ids_def take_map min_def)

lemma distinct_drawn_ids_mono:
  assumes "id_truncate_limit s' = id_truncate_limit s" and "uuid_calls s \<le> uuid_calls s'"
    and "distinct (drawn_ids e s')"
  shows "distinct (drawn_ids e s)"
  using assms by (simp add: drawn_ids_take [OF assms(1,2)])

lemma set_drawn_ids_mono:
  assumes "id_truncate_limit s' = id_truncate_limit s" and "uuid_calls s \<le> uuid_calls s'"
  shows "set (drawn_ids e s) \<subseteq> set (drawn_ids e s')"
  unfolding drawn_ids_take [OF assms] by (rule set_take_subset)

lemma step_ok_refl: "step_ok e s s"
  by (simp add: step_ok_def)

lemma step_ok_trans:
  assumes "step_ok e s s1" and "step_ok e s1 s2"
  shows "step_ok e s s2"
proof -
  from assms have lim: "id_truncate_limit s2 = id_truncate_limit s1"
    and le: "uuid_calls s1 \<le> uuid_calls s2"
    by (simp_all add: step_ok_def)
  have "distinct (drawn_ids e s2) \<Longrightarrow> distinct (drawn_ids e s1)"
    using distinct_drawn_ids_mono [OF lim le] .
  with assms show ?thesis by (auto simp: step_ok_def)
qed

lemma step_ok_log_only:
  assumes "\<not> completed_creation qr"
  shows "step_ok e s (s\<lparr>llm_log := llm_log s @ [qr]\<rparr>)"
  using assms by (simp add: step_ok_def store_inv_def creations_def drawn_ids_def)

lemma find_relevant_chunk_step: "step_ok e s (snd (find_relevant_chunk e s p))"
proof -
  have "snd (find_relevant_chunk e s p) =
      s\<lparr>llm_log := llm_log s @ [(FindChunkPrompt p (get_chunk_outline s),
           llm e (length (llm_log s)) (FindChunkPrompt p (get_chunk_outline s)))]\<rparr>"
    by (simp add: find_relevant_chunk_def invoke_def Let_def split: sum.splits)
  then show ?thesis
    by (simp add: step_ok_log_only completed_creation_def)
qed

lemma create_new_chunk_step: "step_ok e s (snd (create_new_chunk e s p))"
proof (cases rule: create_new_chunk_cases [of e s p])
  case (summary_fails err)
  have "set (drawn_ids e s) \<subseteq> set (drawn_ids e (s\<lparr>uuid_calls := Suc (uuid_calls s)\<rparr>))"
    by (rule set_drawn_ids_mono) simp_all
  then show ?thesis
    by (auto simp: create_new_chunk_summary_fails [OF summary_fails] step_ok_def store_inv_def
        creations_def completed_creation_def drawn_ids_def)
next
  case (title_fails a err)
  have "set (drawn_ids e s) \<subseteq> set (drawn_ids e (s\<lparr>uuid_calls := Suc (uuid_calls s)\<rparr>))"
    by (rule set_drawn_ids_mono) simp_all
  then show ?thesis
    by (auto simp: create_new_chunk_title_fails [OF title_fails] step_ok_def store_inv_def
        creations_def completed_creation_def drawn_ids_def)
next
  case (succeeds a b)
  let ?cid = "take (id_truncate_limit s) (uuid4 e (uuid_calls s))"
  let ?s' = "snd (create_new_chunk e s p)"
  have s': "?s' = s\<lparr>uuid_calls := Suc (uuid_calls s),
               llm_log := llm_log s @
                 [(NewSummaryPrompt p, Inr a), (NewTitlePrompt (py_strip a), Inr b)],
               chunks := dict_set (chunks s) ?cid (new_chunk s ?cid p a b)\<rparr>"
    by (simp add: create_new_chunk_succeeds [OF succeeds])
  have ids: "drawn_ids e ?s' = drawn_ids e s @ [?cid]"
    by (simp add: s' drawn_ids_def)
  have "store_inv e ?s'" if d: "distinct (drawn_ids e ?s')" and inv: "store_inv e s"
  proof -
    from d have "?cid \<notin> set (drawn_ids e s)" by (simp add: ids)
    with inv have fresh: "?cid \<notin> set (dict_keys (chunks s))" by (auto simp: store_inv_def)
    then have ch: "chunks ?s' = chunks s @ [(?cid, new_chunk s ?cid p a b)]"
      by (simp add: s' dict_set_fresh)
    have 1: "map chunk_index (dict_values (chunks ?s')) = [0..<length (chunks ?s')]"
      using inv by (simp add: ch store_inv_def dict_values_def new_chunk_def)
    have 2: "set (dict_keys (chunks ?s')) \<subseteq> set (drawn_ids e ?s')"
      using inv by (auto simp: ch ids store_inv_def dict_keys_def)
    have "creations ?s' = Suc (creations s)"
      by (simp add: s' creations_def completed_creation_def)
    with inv have 3: "length (chunks ?s') = creations ?s'"
      by (simp add: ch store_inv_def)
    from 1 2 3 show ?thesis by (simp add: store_inv_def)
  qed
  moreover have "id_truncate_limit ?s' = id_truncate_limit s" "uuid_calls s \<le> uuid_calls ?s'"
    by (simp_all add: s')
  ultimately show ?thesis by (simp add: step_ok_def)
qed

lemma dict_set_same_index:
  assumes "dict_get d k = Some c" and "chunk_index c' = chunk_index c"
  shows "map chunk_index (dict_values (dict_set d k c')) = map chunk_index (dict_values d)"
  using assms by (induction d) (auto simp: dict_values_def split: if_splits)

lemma step_ok_dict_set:
  assumes "dict_get (chunks s) cid = Some c" and "chunk_index c' = chunk_index c"
    and "\<forall>qr \<in> set log. \<not> completed_creation qr"
  shows "step_ok e s (s\<lparr>chunks := dict_set (chunks s) cid c', llm_log := llm_log s @ log\<rparr>)"
proof -
  from assms(1) have k: "cid \<in> set (dict_keys (chunks s))" by (rule dict_get_keys)
  have f: "filter completed_creation log = []" using assms(3) by (simp add: filter_empty_conv)
  show ?thesis
    using k
    by (simp add: step_ok_def store_inv_def creations_def drawn_ids_def f
        dict_set_same_index [OF assms(1,2)] length_dict_set dict_keys_dict_set)
qed

lemma add_proposition_to_chunk_step: "step_ok e s (snd (add_proposition_to_chunk e s cid p))"
proof (cases "dict_get (chunks s) cid")
  case None
  then show ?thesis by (simp add: add_proposition_to_chunk_missing step_ok_refl)
next
  case (Some c)
  show ?thesis
  proof (cases "generate_new_metadata_ind s")
    case False
    have "step_ok e s (s\<lparr>chunks := dict_set (chunks s) cid
        (c\<lparr>propositions := propositions c @ [p]\<rparr>), llm_log := llm_log s @ []\<rparr>)"
      by (rule step_ok_dict_set [OF Some]) simp_all
    then show ?thesis by (simp add: add_proposition_to_chunk_frozen [OF False Some])
  next
    case True
    let ?q1 = "UpdateSummaryPrompt (py_join newline (propositions c @ [p])) (summary c)"
    show ?thesis
    proof (cases "llm e (length (llm_log s)) ?q1")
      case (Inl err)
      have "step_ok e s (s\<lparr>chunks := dict_set (chunks s) cid
          (c\<lparr>propositions := propositions c @ [p]\<rparr>),
          llm_log := llm_log s @ [(?q1, Inl err)]\<rparr>)"
        by (rule step_ok_dict_set [OF Some]) (simp_all add: completed_creation_def)
      then show ?thesis
        by (simp add: add_proposition_to_chunk_summary_fails [OF True Some Inl])
    next
      case (Inr a)
      let ?q2 = "UpdateTitlePrompt (py_join newline (propositions c @ [p])) (py_strip a) (title c)"
      show ?thesis
      proof (cases "llm e (Suc (length (llm_log s))) ?q2")
        case (Inl err)
        have "step_ok e s (s\<lparr>chunks := dict_set (chunks s) cid
            (c\<lparr>propositions := propositions c @ [p], summary := py_strip a\<rparr>),
            llm_log := llm_log s @ [(?q1, Inr a), (?q2, Inl err)]\<rparr>)"
          by (rule step_ok_dict_set [OF Some]) (simp_all add: completed_creation_def)
        then show ?thesis
          by (simp add: add_proposition_to_chunk_title_fails [OF True Some Inr Inl])
      next
        case b: (Inr b)
        have "step_ok e s (s\<lparr>chunks := dict_set (chunks s) cid
            (c\<lparr>propositions := propositions c @ [p], summary := py_strip a,
               title := py_strip b\<rparr>),
            llm_log := llm_log s @ [(?q1, Inr a), (?q2, Inr b)]\<rparr>)"
          by (rule step_ok_dict_set [OF Some]) (simp_all add: completed_creation_def)
        then show ?thesis
          by (simp add: add_proposition_to_chunk_succeeds [OF True Some Inr b])
      qed
    qed
  qed
qed

lemma add_proposition_step: "step_ok e s (snd (add_proposition e s p))"
proof (cases "length (chunks s) = 0")
  case True
  then show ?thesis by (simp add: add_proposition_def create_new_chunk_step)
next
  case False
  obtain r s1 where f: "find_relevant_chunk e s p = (r, s1)" by (cases "find_relevant_chunk e s p")
  then have 1: "step_ok e s s1" using find_relevant_chunk_step [of e s p] by simp
  show ?thesis
  proof (cases r)
    case (Inl err)
    with False f 1 show ?thesis by (simp add: add_proposition_def)
  next
    case (Inr found)
    have "step_ok e s1 (snd (add_proposition e s p))"
      using False f Inr
      by (simp add: add_proposition_def create_new_chunk_step add_proposition_to_chunk_step
          split: option.splits)
    with 1 show ?thesis by (rule step_ok_trans)
  qed
qed

lemma add_propositions_step: "step_ok e s (snd (add_propositions e s ps))"
proof (induction ps arbitrary: s)
  case Nil
  show ?case by (simp add: step_ok_refl)
next
  case (Cons p ps)
  obtain r s1 where a: "add_proposition e s p = (r, s1)" by (cases "add_proposition e s p")
  then have 1: "step_ok e s s1" using add_proposition_step [of e s p] by simp
  show ?case
  proof (cases r)
    case (Inl err)
    with a 1 show ?thesis by simp
  next
    case (Inr u)
    with a have "snd (add_propositions e s (p # ps)) = snd (add_propositions e s1 ps)" by simp
    with 1 Cons.IH [of s1] show ?thesis by (auto intro: step_ok_trans)
  qed
qed

lemma run_step: "step_ok e s (run e s calls)"
proof (induction calls arbitrary: s)
  case Nil
  show ?case by (simp add: step_ok_refl)
next
  case (Cons c calls)
  show ?case
  proof (cases c)
    case (AddProposition p)
    with Cons.IH [of "snd (add_proposition e s p)"] add_proposition_step [of e s p]
    show ?thesis by (auto intro: step_ok_trans)
  next
    case (AddPropositions ps)
    with Cons.IH [of "snd (add_propositions e s ps)"] add_propositions_step [of e s ps]
    show ?thesis by (auto intro: step_ok_trans)
  qed
qed

text \<open>
  C6 as stated fails.  Four propositions, each of which the model places in no chunk; the
  third uuid starts with the same five characters as the first.  After the four creations
  the indices in the store are 2, 1 and 2.
\<close>

theorem colliding_id_repeats_index:
  "map (\<lambda>(k, c). (k, chunk_index c))
     (chunks (run colliding init
        [AddPropositions [''The month is October.'', ''Greg likes pizza.'',
           ''The year is 2023.'', ''Teachers told us that the returns were linear.'']])) =
     [(''d41a2'', 2), (''0b7c3'', 1), (''9e8f7'', 2)] \<and>
   creations (run colliding init
        [AddPropositions [''The month is October.'', ''Greg likes pizza.'',
           ''The year is 2023.'', ''Teachers told us that the returns were linear.'']]) = 4"
  by code_simp

text \<open>
  C6, amended.  Take an object with an empty store and any sequence of
  \<open>add_proposition\<close> and \<open>add_propositions\<close> calls on it.  If the ids drawn
  during the calls are pairwise different, then the store holds one chunk for each
  completed creation, and the indices of the chunks, in store order, are
  \<open>0, 1, \<dots>, k - 1\<close>, where \<open>k\<close> is the number of completed creations.
\<close>

theorem chunk_index_values:
  assumes "chunks s0 = []" and "llm_log s0 = []" and "uuid_calls s0 = 0"
    and "distinct (drawn_ids e (run e s0 calls))"
  shows "map chunk_index (dict_values (chunks (run e s0 calls))) =
           [0..<creations (run e s0 calls)] \<and>
         length (chunks (run e s0 calls)) = creations (run e s0 calls)"
proof -
  have "store_inv e s0"
    using assms(1-3)
    by (simp add: store_inv_def dict_values_def dict_keys_def creations_def)
  with run_step [of e s0 calls] assms(4) have "store_inv e (run e s0 calls)"
    by (simp add: step_ok_def)
  then show ?thesis by (simp add: store_inv_def)
qed

theorem chunk_index_values_witness:
  "map chunk_index (dict_values (chunks (run unrelated init
      [AddProposition ''The month is October.'', AddProposition ''The year is 2023.'']))) = [0, 1]"
proof -
  let ?calls = "[AddProposition ''The month is October.'', AddProposition ''The year is 2023.'']"
  have 1: "chunks init = []" "llm_log init = []" "uuid_calls init = 0"
    by (simp_all add: init_def)
  have 2: "distinct (drawn_ids unrelated (run unrelated init ?calls))" by code_simp
  have 3: "creations (run unrelated init ?calls) = 2" by code_simp
  from chunk_index_values [OF 1 2] have
    "map chunk_index (dict_values (chunks (run unrelated init ?calls))) =
       [0..<creations (run unrelated init ?calls)]" by blast
  then have "map chunk_index (dict_values (chunks (run unrelated init ?calls))) = [0..<2]"
    by (simp only: 3)
  also have "[0..<2] = [0, Suc 0]" by (simp add: upt_rec)
  finally show ?thesis by simp
qed

end
